theory Spec2Isabelle
  imports Complex_Main
begin

section \<open>Retrieve, optionally rerank, generate: the notebook's pipeline\<close>

text \<open>
  The development embeds the two functions of the notebook
  \<^verbatim>\<open>Lab 2/2.4 Bedrock Inference with Reranking.ipynb\<close>:
  \<^verbatim>\<open>search_kb_with_optional_rerank\<close> and \<^verbatim>\<open>retrieve_and_generate\<close>.
  The three remote services (retrieve, rerank, invoke_model) are parameters of the model;
  every call made to them is appended to a trace, so that "no rerank call is made" is a
  statement about that trace. A \<open>char\<close> stands for one character of a Python string.
\<close>

subsection \<open>Python values and exceptions\<close>

datatype py_error = IndexError | KeyError | ClientError string

text \<open>Plain (non-mapping) values that may appear among the fragments of a hit.\<close>

datatype atom = PyNone | PyBool bool | PyInt int | PyStr string

text \<open>
  One element of \<^verbatim>\<open>result["content"]["text"]\<close>: either a mapping (a \<^verbatim>\<open>dict\<close> from keys
  to texts, as the service's span fragments are) or any other value.
\<close>

datatype item = Dict "(string \<times> string) list" | Plain atom

definition digit :: "nat \<Rightarrow> char" where
  "digit n = ''0123456789'' ! n"

fun str_nat :: "nat \<Rightarrow> string" where
  "str_nat n = (if n < 10 then [digit n] else str_nat (n div 10) @ [digit (n mod 10)])"

declare str_nat.simps [simp del]

definition str_int :: "int \<Rightarrow> string" where
  "str_int i = (if i < 0 then ''-'' @ str_nat (nat (- i)) else str_nat (nat i))"

text \<open>Python's \<^verbatim>\<open>str(x)\<close> on the plain values.\<close>

fun str :: "atom \<Rightarrow> string" where
  "str PyNone = ''None''"
| "str (PyBool b) = (if b then ''True'' else ''False'')"
| "str (PyInt i) = str_int i"
| "str (PyStr s) = s"

text \<open>\<^verbatim>\<open>sep.join(parts)\<close>.\<close>

fun join :: "string \<Rightarrow> string list \<Rightarrow> string" where
  "join sep [] = []"
| "join sep [x] = x"
| "join sep (x # y # ys) = x @ sep @ join sep (y # ys)"

text \<open>\<^verbatim>\<open>xs[i]\<close>: a negative index counts from the end, anything out of range raises.\<close>

definition subscript :: "'a list \<Rightarrow> int \<Rightarrow> py_error + 'a" where
  "subscript xs i =
     (if 0 \<le> i \<and> i < int (length xs) then Inr (xs ! nat i)
      else if i < 0 \<and> - int (length xs) \<le> i then Inr (xs ! nat (int (length xs) + i))
      else Inl IndexError)"

subsection \<open>Service responses and results\<close>

text \<open>
  A key that a response may lack is an \<open>option\<close> field. \<open>content_text\<close> is the key
  \<^verbatim>\<open>"text"\<close> of a hit's content, \<open>original_text\<close> the key \<^verbatim>\<open>"text"\<close> of an entry of
  \<^verbatim>\<open>original_results\<close>, \<open>reranked_text\<close> the key \<^verbatim>\<open>"text"\<close> of an entry of
  \<^verbatim>\<open>reranked_results\<close>, \<open>block_text\<close> the key \<^verbatim>\<open>"text"\<close> of a content block of the model's answer.
\<close>

record kb_content =
  content_text :: "item list option"

record retrieval_result =
  content :: "kb_content option"
  scoreValue :: "real option"

record kb_response =
  retrievalResults :: "retrieval_result list option"

record rerank_result =
  index :: "int option"
  relevanceScore :: "real option"

record rerank_response =
  results :: "rerank_result list option"

record content_block =
  block_text :: "string option"

record response_body =
  body_content :: "content_block list option"

record retrieved_document =
  position :: int
  score :: real
  original_text :: string

record reranked_document =
  original_position :: int
  new_position :: int
  relevance_score :: real
  reranked_text :: string

record pipeline_result =
  original_results :: "retrieved_document list"
  reranked_results :: "reranked_document list option"

text \<open>
  The remote services: \<open>retrieve query kb_id numberOfResults\<close>,
  \<open>rerank query model_arn numberOfResults documents\<close> and
  \<open>invoke_model model_id max_tokens prompt\<close> (the JSON encoding of the request body and the
  decoding of the answer are part of the service here). Each may raise.
\<close>

record services =
  retrieve :: "string \<Rightarrow> string \<Rightarrow> nat \<Rightarrow> py_error + kb_response"
  rerank :: "string \<Rightarrow> string \<Rightarrow> nat \<Rightarrow> string list \<Rightarrow> py_error + rerank_response"
  invoke_model :: "string \<Rightarrow> nat \<Rightarrow> string \<Rightarrow> py_error + response_body"

datatype call =
  Retrieve string string nat
| Rerank string string nat "string list"
| InvokeModel string nat string

subsection \<open>search_kb_with_optional_rerank\<close>

text \<open>
  The readers \<^verbatim>\<open>d.get(key, default)\<close> of the optional keys are \<open>get_scoreValue\<close>,
  \<open>get_index\<close>, \<open>get_relevanceScore\<close> (default 0) and \<open>get_retrievalResults\<close>,
  \<open>get_results\<close> (default the empty list).

  \<^verbatim>\<open>item.get("span", "") if isinstance(item, dict) else str(item)\<close>
\<close>

fun item_text :: "item \<Rightarrow> string" where
  "item_text (Dict d) = (case map_of d ''span'' of None \<Rightarrow> '''' | Some s \<Rightarrow> s)"
| "item_text (Plain a) = str a"

text \<open>The text of one hit: empty unless both keys are there.\<close>

definition extract_text :: "retrieval_result \<Rightarrow> string" where
  "extract_text result =
     (case content result of
        None \<Rightarrow> ''''
      | Some c \<Rightarrow>
          (case content_text c of
             None \<Rightarrow> ''''
           | Some items \<Rightarrow> join '' '' (map item_text items)))"

text \<open>\<^verbatim>\<open>text[:300] + "..." if len(text) > 300 else text\<close>\<close>

definition truncate_text :: "string \<Rightarrow> string" where
  "truncate_text t = (if length t > 300 then take 300 t @ ''...'' else t)"

definition get_scoreValue :: "retrieval_result \<Rightarrow> real" where
  "get_scoreValue result = (case scoreValue result of None \<Rightarrow> 0 | Some s \<Rightarrow> s)"

definition get_index :: "rerank_result \<Rightarrow> int" where
  "get_index result = (case index result of None \<Rightarrow> 0 | Some i \<Rightarrow> i)"

definition get_relevanceScore :: "rerank_result \<Rightarrow> real" where
  "get_relevanceScore result = (case relevanceScore result of None \<Rightarrow> 0 | Some s \<Rightarrow> s)"

definition get_retrievalResults :: "kb_response \<Rightarrow> retrieval_result list" where
  "get_retrievalResults kb = (case retrievalResults kb of None \<Rightarrow> [] | Some rs \<Rightarrow> rs)"

definition get_results :: "rerank_response \<Rightarrow> rerank_result list" where
  "get_results r = (case results r of None \<Rightarrow> [] | Some rs \<Rightarrow> rs)"

text \<open>
  The first loop, over \<^verbatim>\<open>enumerate(kb_response.get("retrievalResults", []))\<close>, with its
  two accumulators; \<open>i\<close> is the loop index.
\<close>

fun retrieval_loop ::
  "int \<Rightarrow> retrieval_result list \<Rightarrow> retrieved_document list \<Rightarrow> string list
     \<Rightarrow> retrieved_document list \<times> string list" where
  "retrieval_loop i [] original documents = (original, documents)"
| "retrieval_loop i (result # rest) original documents =
     (let t = extract_text result in
      retrieval_loop (i + 1) rest
        (original @
           [\<lparr>position = i + 1,
             score = get_scoreValue result,
             original_text = truncate_text t\<rparr>])
        (documents @ [t]))"

text \<open>
  The second loop, over \<^verbatim>\<open>reranked.get("results", [])\<close>; \<^verbatim>\<open>documents[idx]\<close> may raise,
  which ends the loop and the function.
\<close>

fun rerank_loop ::
  "string list \<Rightarrow> rerank_result list \<Rightarrow> reranked_document list
     \<Rightarrow> py_error + reranked_document list" where
  "rerank_loop documents [] reranked = Inr reranked"
| "rerank_loop documents (result # rest) reranked =
     (let idx = get_index result in
      case subscript documents idx of
        Inl e \<Rightarrow> Inl e
      | Inr doc \<Rightarrow>
          rerank_loop documents rest
            (reranked @
               [\<lparr>original_position = idx + 1,
                 new_position = int (length reranked) + 1,
                 relevance_score = get_relevanceScore result,
                 reranked_text = take 300 doc @ ''...''\<rparr>]))"

text \<open>
  The function returns the trace of the calls it made and either the exception that ended
  it or its result. \<open>model_arn\<close> is \<open>None\<close> by default; \<open>None\<close> and the empty string are the
  falsy values of \<^verbatim>\<open>model_arn\<close>, the empty list that of \<^verbatim>\<open>documents\<close>.
\<close>

definition search_kb_with_optional_rerank ::
  "services \<Rightarrow> string \<Rightarrow> string \<Rightarrow> string option \<Rightarrow> bool
     \<Rightarrow> call list \<times> (py_error + pipeline_result)" where
  "search_kb_with_optional_rerank svc query kb_id model_arn use_reranking =
     (case retrieve svc query kb_id 5 of
        Inl e \<Rightarrow> ([Retrieve query kb_id 5], Inl e)
      | Inr kb \<Rightarrow>
          (case retrieval_loop 0 (get_retrievalResults kb) [] [] of
             (original, documents) \<Rightarrow>
               (case model_arn of
                  None \<Rightarrow>
                    ([Retrieve query kb_id 5],
                     Inr \<lparr>original_results = original, reranked_results = None\<rparr>)
                | Some arn \<Rightarrow>
                    if use_reranking \<and> arn \<noteq> [] \<and> documents \<noteq> [] then
                      (case rerank svc query arn 5 documents of
                         Inl e \<Rightarrow>
                           ([Retrieve query kb_id 5, Rerank query arn 5 documents], Inl e)
                       | Inr reranked \<Rightarrow>
                           (case rerank_loop documents (get_results reranked) [] of
                              Inl e \<Rightarrow>
                                ([Retrieve query kb_id 5, Rerank query arn 5 documents], Inl e)
                            | Inr rr \<Rightarrow>
                                ([Retrieve query kb_id 5, Rerank query arn 5 documents],
                                 Inr \<lparr>original_results = original,
                                      reranked_results = Some rr\<rparr>)))
                    else
                      ([Retrieve query kb_id 5],
                       Inr \<lparr>original_results = original, reranked_results = None\<rparr>))))"

subsection \<open>retrieve_and_generate\<close>

text \<open>Step 2: which texts feed the generator, and the label that names them.\<close>

definition select_documents :: "bool \<Rightarrow> pipeline_result \<Rightarrow> string list \<times> string" where
  "select_documents use_reranking res =
     (case (if use_reranking then reranked_results res else None) of
        Some rr \<Rightarrow> (map reranked_text rr, ''reranked'')
      | None \<Rightarrow> (map original_text (original_results res), ''vector search''))"

definition nl :: string where
  "nl = [CHR 0x0A]"

text \<open>\<^verbatim>\<open>[f"Document {i+1}: {doc[:300]}..." for i, doc in enumerate(...)]\<close> from index \<open>i\<close> on.\<close>

fun format_documents :: "int \<Rightarrow> string list \<Rightarrow> string list" where
  "format_documents i [] = []"
| "format_documents i (doc # rest) =
     (''Document '' @ str_int (i + 1) @ '': '' @ take 300 doc @ ''...'')
       # format_documents (i + 1) rest"

definition build_context :: "string list \<Rightarrow> string" where
  "build_context docs = join (nl @ nl) (format_documents 0 (take 3 docs))"

definition build_prompt :: "string \<Rightarrow> string \<Rightarrow> string \<Rightarrow> string" where
  "build_prompt query source_type context =
     ''Query: '' @ query @ nl @ nl @ ''Context from '' @ source_type @ '':'' @ nl
       @ context @ nl @ nl @ ''Answer:''"

definition model_id :: string where
  "model_id = ''anthropic.claude-3-5-sonnet-20241022-v2:0''"

text \<open>\<^verbatim>\<open>response_body["content"][0]["text"]\<close>\<close>

definition first_text :: "response_body \<Rightarrow> py_error + string" where
  "first_text b =
     (case body_content b of
        None \<Rightarrow> Inl KeyError
      | Some [] \<Rightarrow> Inl IndexError
      | Some (blk # _) \<Rightarrow> (case block_text blk of None \<Rightarrow> Inl KeyError | Some t \<Rightarrow> Inr t))"

definition retrieve_and_generate ::
  "services \<Rightarrow> string \<Rightarrow> string \<Rightarrow> string option \<Rightarrow> bool \<Rightarrow> call list \<times> (py_error + string)" where
  "retrieve_and_generate svc query kb_id rerank_model_arn use_reranking =
     (case search_kb_with_optional_rerank svc query kb_id rerank_model_arn use_reranking of
        (tr, Inl e) \<Rightarrow> (tr, Inl e)
      | (tr, Inr res) \<Rightarrow>
          (case select_documents use_reranking res of
             (docs, source_type) \<Rightarrow>
               (let prompt = build_prompt query source_type (build_context docs) in
                case invoke_model svc model_id 500 prompt of
                  Inl e \<Rightarrow> (tr @ [InvokeModel model_id 500 prompt], Inl e)
                | Inr b \<Rightarrow> (tr @ [InvokeModel model_id 500 prompt], first_text b))))"

subsection \<open>Joining, as the specification words it\<close>

text \<open>
  "Joined with single spaces": every part is preceded by the separator and the first
  separator is dropped. This definition follows the specification and is compared with
  \<open>join\<close> below.
\<close>

definition joined_with :: "string \<Rightarrow> string list \<Rightarrow> string" where
  "joined_with sep parts = drop (length sep) (concat (map (\<lambda>p. sep @ p) parts))"

subsection \<open>Sample services\<close>

text \<open>
  A knowledge base that answers every query with two hits, the second one longer than 300
  characters, and a reranker that returns the second document first; the sample results
  are what the code computes from them.
\<close>

definition demo_hits :: "retrieval_result list" where
  "demo_hits =
     [\<lparr>content = Some \<lparr>content_text =
           Some [Dict [(''span'', ''alpha'')], Plain (PyInt 42), Plain (PyStr ''beta'')]\<rparr>,
        scoreValue = Some 0.9\<rparr>,
      \<lparr>content = Some \<lparr>content_text = Some [Plain (PyStr (replicate 301 (CHR ''x'')))]\<rparr>,
        scoreValue = None\<rparr>]"

definition demo_entries :: "rerank_result list" where
  "demo_entries =
     [\<lparr>index = Some 1, relevanceScore = Some 0.8\<rparr>, \<lparr>index = None, relevanceScore = None\<rparr>]"

definition demo_services :: services where
  "demo_services =
     \<lparr>retrieve = (\<lambda>q kb n. Inr \<lparr>retrievalResults = Some demo_hits\<rparr>),
      rerank = (\<lambda>q arn n docs. Inr \<lparr>results = Some demo_entries\<rparr>),
      invoke_model = (\<lambda>m n p. Inr \<lparr>body_content = Some [\<lparr>block_text = Some ''ok''\<rparr>]\<rparr>)\<rparr>"

definition demo_documents :: "string list" where
  "demo_documents = [''alpha 42 beta'', replicate 301 (CHR ''x'')]"

definition demo_original :: "retrieved_document list" where
  "demo_original =
     [\<lparr>position = 1, score = 0.9, original_text = ''alpha 42 beta''\<rparr>,
      \<lparr>position = 2, score = 0, original_text = replicate 300 (CHR ''x'') @ ''...''\<rparr>]"

definition demo_reranked :: "reranked_document list" where
  "demo_reranked =
     [\<lparr>original_position = 2, new_position = 1, relevance_score = 0.8,
        reranked_text = replicate 300 (CHR ''x'') @ ''...''\<rparr>,
      \<lparr>original_position = 1, new_position = 2, relevance_score = 0,
        reranked_text = ''alpha 42 beta...''\<rparr>]"

text \<open>A knowledge base whose answer has no \<^verbatim>\<open>retrievalResults\<close> key.\<close>

definition empty_services :: services where
  "empty_services = demo_services\<lparr>retrieve := (\<lambda>q kb n. Inr \<lparr>retrievalResults = None\<rparr>)\<rparr>"

text \<open>A reranker that returns an index beyond the two documents submitted.\<close>

definition stray_entries :: "rerank_result list" where
  "stray_entries =
     [\<lparr>index = Some 0, relevanceScore = Some 0.7\<rparr>, \<lparr>index = Some 2, relevanceScore = Some 0.6\<rparr>]"

definition stray_services :: services where
  "stray_services = demo_services\<lparr>rerank := (\<lambda>q arn n docs. Inr \<lparr>results = Some stray_entries\<rparr>)\<rparr>"

text \<open>
  A knowledge base that returns six hits for the five requested, and a reranker that
  returns seven entries for the six documents, the first with the index -1; the results
  are what the code computes from them.
\<close>

definition bare_hit :: retrieval_result where
  "bare_hit = \<lparr>content = None, scoreValue = None\<rparr>"

definition wide_hits :: "retrieval_result list" where
  "wide_hits = [bare_hit, bare_hit, bare_hit, bare_hit, bare_hit, bare_hit]"

definition wide_entries :: "rerank_result list" where
  "wide_entries =
     [\<lparr>index = Some (- 1), relevanceScore = None\<rparr>,
      \<lparr>index = Some 0, relevanceScore = None\<rparr>, \<lparr>index = Some 0, relevanceScore = None\<rparr>,
      \<lparr>index = Some 0, relevanceScore = None\<rparr>, \<lparr>index = Some 0, relevanceScore = None\<rparr>,
      \<lparr>index = Some 0, relevanceScore = None\<rparr>, \<lparr>index = Some 0, relevanceScore = None\<rparr>]"

definition wide_services :: services where
  "wide_services =
     demo_services\<lparr>retrieve := (\<lambda>q kb n. Inr \<lparr>retrievalResults = Some wide_hits\<rparr>),
                   rerank := (\<lambda>q arn n docs. Inr \<lparr>results = Some wide_entries\<rparr>)\<rparr>"

definition wide_documents :: "string list" where
  "wide_documents = ['''', '''', '''', '''', '''', '''']"

definition wide_original :: "retrieved_document list" where
  "wide_original =
     [\<lparr>position = 1, score = 0, original_text = ''''\<rparr>,
      \<lparr>position = 2, score = 0, original_text = ''''\<rparr>,
      \<lparr>position = 3, score = 0, original_text = ''''\<rparr>,
      \<lparr>position = 4, score = 0, original_text = ''''\<rparr>,
      \<lparr>position = 5, score = 0, original_text = ''''\<rparr>,
      \<lparr>position = 6, score = 0, original_text = ''''\<rparr>]"

definition wide_reranked :: "reranked_document list" where
  "wide_reranked =
     [\<lparr>original_position = 0, new_position = 1, relevance_score = 0, reranked_text = ''...''\<rparr>,
      \<lparr>original_position = 1, new_position = 2, relevance_score = 0, reranked_text = ''...''\<rparr>,
      \<lparr>original_position = 1, new_position = 3, relevance_score = 0, reranked_text = ''...''\<rparr>,
      \<lparr>original_position = 1, new_position = 4, relevance_score = 0, reranked_text = ''...''\<rparr>,
      \<lparr>original_position = 1, new_position = 5, relevance_score = 0, reranked_text = ''...''\<rparr>,
      \<lparr>original_position = 1, new_position = 6, relevance_score = 0, reranked_text = ''...''\<rparr>,
      \<lparr>original_position = 1, new_position = 7, relevance_score = 0, reranked_text = ''...''\<rparr>]"

section \<open>Properties\<close>

subsection \<open>Auxiliary facts\<close>

lemma str_nat_small: "n < 10 \<Longrightarrow> str_nat n = [digit n]"
  by (simp add: str_nat.simps)

lemma str_int_1: "str_int 1 = ''1''"
  by (simp add: str_int_def str_nat_small digit_def)

lemma str_int_2: "str_int 2 = ''2''"
  by (simp add: str_int_def str_nat_small digit_def)

lemma str_int_3: "str_int 3 = ''3''"
  by (simp add: str_int_def str_nat_small digit_def)

lemma join_Cons: "join sep (x # xs) = (if xs = [] then x else x @ sep @ join sep xs)"
  by (cases xs) simp_all

lemma join_joined_with: "join sep parts = joined_with sep parts"
proof (induction sep parts rule: join.induct)
  case (1 sep)
  show ?case by (simp add: joined_with_def)
next
  case (2 sep x)
  show ?case by (simp add: joined_with_def)
next
  case (3 sep x y ys)
  have "sep @ join sep (y # ys) = concat (map (\<lambda>p. sep @ p) (y # ys))"
  proof -
    have "join sep (y # ys) = drop (length sep) (sep @ y @ concat (map (\<lambda>p. sep @ p) ys))"
      using 3 by (simp add: joined_with_def)
    then show ?thesis by simp
  qed
  then show ?case by (simp add: joined_with_def)
qed

lemma retrieval_loop_documents:
  "snd (retrieval_loop i rs original documents) = documents @ map extract_text rs"
  by (induction rs arbitrary: i original documents) (simp_all add: Let_def)


lemma retrieval_loop_length:
  "length (fst (retrieval_loop i rs original documents)) = length original + length rs"
  by (induction rs arbitrary: i original documents) (simp_all add: Let_def)

lemma rerank_loop_Inr:
  "rerank_loop documents es acc = Inr rr \<Longrightarrow>
     \<exists>new. rr = acc @ new \<and> length new = length es
       \<and> map original_position new = map (\<lambda>e. get_index e + 1) es
       \<and> map new_position new = [int (length acc) + 1 .. int (length acc) + int (length es)]
       \<and> list_all2 (\<lambda>e d. original_position d = get_index e + 1
                          \<and> (\<exists>doc. subscript documents (get_index e) = Inr doc
                                \<and> reranked_text d = take 300 doc @ ''...'')) es new"
proof (induction es arbitrary: acc)
  case Nil
  then show ?case by simp
next
  case (Cons e es)
  from Cons.prems obtain doc where doc: "subscript documents (get_index e) = Inr doc"
    by (auto simp: Let_def split: sum.splits)
  define d where "d = \<lparr>original_position = get_index e + 1,
                 new_position = int (length acc) + 1,
                 relevance_score = get_relevanceScore e,
                 reranked_text = take 300 doc @ ''...''\<rparr>"
  from Cons.prems doc have "rerank_loop documents es (acc @ [d]) = Inr rr"
    by (simp add: Let_def d_def)
  from Cons.IH [OF this] obtain new where new: "rr = (acc @ [d]) @ new" "length new = length es"
     "map original_position new = map (\<lambda>e. get_index e + 1) es"
     "map new_position new = [int (length (acc @ [d])) + 1 .. int (length (acc @ [d])) + int (length es)]"
     "list_all2 (\<lambda>e d. original_position d = get_index e + 1
                          \<and> (\<exists>doc. subscript documents (get_index e) = Inr doc
                                \<and> reranked_text d = take 300 doc @ ''...'')) es new"
    by blast
  have "[int (length acc) + 1 .. int (length acc) + int (length (e # es))]
          = (int (length acc) + 1) # [int (length (acc @ [d])) + 1 .. int (length (acc @ [d])) + int (length es)]"
    by (subst upto.simps) (simp add: add.commute add.left_commute)
  with new doc show ?case
    by (intro exI [of _ "d # new"]) (simp add: d_def)
qed

lemma rerank_loop_valid:
  "\<forall>e\<in>set es. 0 \<le> get_index e \<and> get_index e < int (length documents) \<Longrightarrow>
     \<exists>rr. rerank_loop documents es acc = Inr rr"
  by (induction es arbitrary: acc) (simp_all add: Let_def subscript_def)

lemma subscript_error: "subscript xs i = Inl e \<Longrightarrow> e = IndexError"
  by (auto simp: subscript_def split: if_splits)

lemma rerank_loop_out_of_range:
  "\<exists>e\<in>set es. int (length documents) \<le> get_index e \<Longrightarrow>
     rerank_loop documents es acc = Inl IndexError"
proof (induction es arbitrary: acc)
  case Nil
  then show ?case by simp
next
  case (Cons e es)
  show ?case
  proof (cases "subscript documents (get_index e)")
    case (Inl err)
    then show ?thesis using subscript_error [OF Inl] by (simp add: Let_def)
  next
    case (Inr doc)
    then have "\<not> int (length documents) \<le> get_index e"
      by (auto simp: subscript_def split: if_splits)
    with Cons.prems have "\<exists>e\<in>set es. int (length documents) \<le> get_index e" by auto
    from Cons.IH [OF this] Inr show ?thesis by (simp add: Let_def)
  qed
qed

lemma search_retrieve_failed:
  "retrieve svc q kb_id 5 = Inl e \<Longrightarrow>
     search_kb_with_optional_rerank svc q kb_id model_arn use = ([Retrieve q kb_id 5], Inl e)"
  by (simp add: search_kb_with_optional_rerank_def)

lemma retrieval_loop_pair:
  "\<exists>original. retrieval_loop i rs [] [] = (original, map extract_text rs)
     \<and> original = fst (retrieval_loop i rs [] [])"
proof -
  have "snd (retrieval_loop i rs [] []) = map extract_text rs"
    by (simp add: retrieval_loop_documents)
  then show ?thesis by (cases "retrieval_loop i rs [] []") simp
qed

lemma search_no_rerank:
  assumes "retrieve svc q kb_id 5 = Inr kb"
    and "\<not> use \<or> model_arn = None \<or> model_arn = Some [] \<or> get_retrievalResults kb = []"
  shows "search_kb_with_optional_rerank svc q kb_id model_arn use =
     ([Retrieve q kb_id 5],
      Inr \<lparr>original_results = fst (retrieval_loop 0 (get_retrievalResults kb) [] []),
           reranked_results = None\<rparr>)"
proof -
  obtain original where p:
    "retrieval_loop 0 (get_retrievalResults kb) [] [] = (original, map extract_text (get_retrievalResults kb))"
    using retrieval_loop_pair by blast
  show ?thesis
    using assms by (auto simp: search_kb_with_optional_rerank_def p split: option.splits)
qed

lemma search_rerank:
  assumes "retrieve svc q kb_id 5 = Inr kb"
    and "arn \<noteq> []" and "get_retrievalResults kb \<noteq> []"
  shows "search_kb_with_optional_rerank svc q kb_id (Some arn) True =
     (case rerank svc q arn 5 (map extract_text (get_retrievalResults kb)) of
        Inl e \<Rightarrow> ([Retrieve q kb_id 5, Rerank q arn 5 (map extract_text (get_retrievalResults kb))], Inl e)
      | Inr resp \<Rightarrow>
         (case rerank_loop (map extract_text (get_retrievalResults kb)) (get_results resp) [] of
            Inl e \<Rightarrow> ([Retrieve q kb_id 5, Rerank q arn 5 (map extract_text (get_retrievalResults kb))], Inl e)
          | Inr rr \<Rightarrow> ([Retrieve q kb_id 5, Rerank q arn 5 (map extract_text (get_retrievalResults kb))],
               Inr \<lparr>original_results = fst (retrieval_loop 0 (get_retrievalResults kb) [] []),
                    reranked_results = Some rr\<rparr>)))"
proof -
  obtain original where p:
    "retrieval_loop 0 (get_retrievalResults kb) [] [] = (original, map extract_text (get_retrievalResults kb))"
    using retrieval_loop_pair by blast
  show ?thesis
    using assms by (simp add: search_kb_with_optional_rerank_def p split: sum.splits)
qed

text \<open>Every successful run, taken apart.\<close>

lemma search_Inr:
  assumes "search_kb_with_optional_rerank svc q kb_id model_arn use = (tr, Inr res)"
  shows "\<exists>kb. retrieve svc q kb_id 5 = Inr kb
           \<and> original_results res = fst (retrieval_loop 0 (get_retrievalResults kb) [] [])
           \<and> (\<forall>rr. reranked_results res = Some rr \<longrightarrow>
                 (\<exists>arn resp. model_arn = Some arn \<and> use
                    \<and> rerank svc q arn 5 (map extract_text (get_retrievalResults kb)) = Inr resp
                    \<and> rerank_loop (map extract_text (get_retrievalResults kb)) (get_results resp) [] = Inr rr))"
proof (cases "retrieve svc q kb_id 5")
  case (Inl e)
  with assms show ?thesis by (simp add: search_retrieve_failed)
next
  case (Inr kb)
  show ?thesis
  proof (cases "\<not> use \<or> model_arn = None \<or> model_arn = Some [] \<or> get_retrievalResults kb = []")
    case True
    from search_no_rerank [OF Inr True] assms Inr show ?thesis by auto
  next
    case False
    then obtain arn where arn: "model_arn = Some arn" "arn \<noteq> []" "get_retrievalResults kb \<noteq> []" "use"
      by auto
    from search_rerank [OF Inr arn(2,3)] assms arn Inr show ?thesis
      by (auto split: sum.splits)
  qed
qed

lemma demo_retrieve:
  "retrieve demo_services ''q'' ''kb'' 5 = Inr \<lparr>retrievalResults = Some demo_hits\<rparr>"
  by (simp add: demo_services_def)

lemma demo_get_hits: "get_retrievalResults \<lparr>retrievalResults = Some demo_hits\<rparr> = demo_hits"
  by (simp add: get_retrievalResults_def)

lemma demo_extract: "map extract_text demo_hits = demo_documents"
  by (simp add: demo_hits_def demo_documents_def extract_text_def str_int_def str_nat.simps
        digit_def)

lemma demo_retrieval_loop: "fst (retrieval_loop 0 demo_hits [] []) = demo_original"
  by (simp add: demo_hits_def demo_original_def extract_text_def str_int_def str_nat.simps
        digit_def truncate_text_def get_scoreValue_def Let_def)

lemma demo_search_plain:
  "search_kb_with_optional_rerank demo_services ''q'' ''kb'' (Some ''arn'') False =
     ([Retrieve ''q'' ''kb'' 5],
      Inr \<lparr>original_results = demo_original, reranked_results = None\<rparr>)"
  using search_no_rerank [OF demo_retrieve, of False "Some ''arn''"]
  by (simp add: demo_get_hits demo_retrieval_loop)

lemma demo_search_rerank:
  "search_kb_with_optional_rerank demo_services ''q'' ''kb'' (Some ''arn'') True =
     ([Retrieve ''q'' ''kb'' 5, Rerank ''q'' ''arn'' 5 demo_documents],
      Inr \<lparr>original_results = demo_original, reranked_results = Some demo_reranked\<rparr>)"
proof -
  have ne: "get_retrievalResults \<lparr>retrievalResults = Some demo_hits\<rparr> \<noteq> []"
    unfolding demo_get_hits by (simp add: demo_hits_def)
  have a: "''arn'' \<noteq> []" by simp
  have r: "rerank demo_services ''q'' ''arn'' 5 demo_documents = Inr \<lparr>results = Some demo_entries\<rparr>"
    by (simp add: demo_services_def)
  have g: "get_results \<lparr>results = Some demo_entries\<rparr> = demo_entries"
    by (simp add: get_results_def)
  have l: "rerank_loop demo_documents demo_entries [] = Inr demo_reranked"
    by (simp add: demo_documents_def demo_entries_def demo_reranked_def get_index_def
          get_relevanceScore_def subscript_def Let_def)
  show ?thesis
    unfolding search_rerank [OF demo_retrieve a ne] demo_get_hits demo_extract
      demo_retrieval_loop
    by (simp add: r g l)
qed

lemma subscript_Inr_bounds:
  "subscript xs i = Inr x \<Longrightarrow> - int (length xs) \<le> i \<and> i < int (length xs)"
  by (auto simp: subscript_def split: if_splits)

lemma rag_trace:
  "search_kb_with_optional_rerank svc q kb_id arn use = (tr, Inr res) \<Longrightarrow>
   select_documents use res = (docs, source_type) \<Longrightarrow>
   fst (retrieve_and_generate svc q kb_id arn use) =
     tr @ [InvokeModel model_id 500 (build_prompt q source_type (build_context docs))]"
  by (simp add: retrieve_and_generate_def Let_def split: sum.splits)

lemma select_documents_plain:
  "select_documents False res = (map original_text (original_results res), ''vector search'')"
  by (simp add: select_documents_def)

lemma select_documents_reranked:
  "reranked_results res = Some rr \<Longrightarrow>
     select_documents True res = (map reranked_text rr, ''reranked'')"
  by (simp add: select_documents_def)

subsection \<open>The claims\<close>

text \<open>
  C1. In a run of \<^verbatim>\<open>retrieve_and_generate\<close> with \<^verbatim>\<open>use_reranking=False\<close> the documents
  selected for the context are the texts of \<^verbatim>\<open>original_results\<close> and the label is
  \<^verbatim>\<open>"vector search"\<close>; with \<^verbatim>\<open>use_reranking=True\<close> and a \<^verbatim>\<open>reranked_results\<close> key in the
  search result they are the texts of \<^verbatim>\<open>reranked_results\<close> and the label is
  \<^verbatim>\<open>"reranked"\<close>. The selection is stated both for step 2 alone and for the prompt that the
  run sends to the model.
\<close>

theorem selected_documents_and_label:
  "(search_kb_with_optional_rerank svc q kb_id arn False = (tr, Inr res) \<longrightarrow>
      select_documents False res = (map original_text (original_results res), ''vector search'')
      \<and> fst (retrieve_and_generate svc q kb_id arn False) =
          tr @ [InvokeModel model_id 500
                  (build_prompt q ''vector search''
                     (build_context (map original_text (original_results res))))])
   \<and> (search_kb_with_optional_rerank svc' q' kb_id' arn' True = (tr', Inr res')
        \<and> reranked_results res' = Some rr \<longrightarrow>
      select_documents True res' = (map reranked_text rr, ''reranked'')
      \<and> fst (retrieve_and_generate svc' q' kb_id' arn' True) =
          tr' @ [InvokeModel model_id 500
                   (build_prompt q' ''reranked'' (build_context (map reranked_text rr)))])"
  using rag_trace select_documents_plain select_documents_reranked by blast

text \<open>The two runs of the sample services, without and with reranking.\<close>

theorem selected_documents_and_label_witness:
  "fst (retrieve_and_generate demo_services ''q'' ''kb'' (Some ''arn'') False) =
     [Retrieve ''q'' ''kb'' 5,
      InvokeModel model_id 500
        (build_prompt ''q'' ''vector search''
           (build_context [''alpha 42 beta'', replicate 300 (CHR ''x'') @ ''...'']))]
   \<and> fst (retrieve_and_generate demo_services ''q'' ''kb'' (Some ''arn'') True) =
     [Retrieve ''q'' ''kb'' 5,
      Rerank ''q'' ''arn'' 5 demo_documents,
      InvokeModel model_id 500
        (build_prompt ''q'' ''reranked''
           (build_context [replicate 300 (CHR ''x'') @ ''...'', ''alpha 42 beta...'']))]"
  using selected_documents_and_label
    [of demo_services "''q''" "''kb''" "Some ''arn''" "[Retrieve ''q'' ''kb'' 5]"
        "\<lparr>original_results = demo_original, reranked_results = None\<rparr>"
        demo_services "''q''" "''kb''" "Some ''arn''"
        "[Retrieve ''q'' ''kb'' 5, Rerank ''q'' ''arn'' 5 demo_documents]"
        "\<lparr>original_results = demo_original, reranked_results = Some demo_reranked\<rparr>"
        demo_reranked]
    demo_search_plain demo_search_rerank
  by (simp add: demo_original_def demo_reranked_def)

lemma rerank_loop_in_range:
  "\<forall>e\<in>set es. - int (length documents) \<le> get_index e \<and> get_index e < int (length documents) \<Longrightarrow>
     \<exists>rr. rerank_loop documents es acc = Inr rr"
  by (induction es arbitrary: acc) (simp_all add: Let_def subscript_def)

text \<open>A run that reaches the rerank call and whose lookups all succeed returns both lists.\<close>

lemma search_reranks:
  assumes "retrieve svc q kb_id 5 = Inr kb"
    and "documents = map extract_text (get_retrievalResults kb)"
    and "documents \<noteq> []" and "arn \<noteq> []"
    and "rerank svc q arn 5 documents = Inr resp"
    and "\<forall>e\<in>set (get_results resp).
           - int (length documents) \<le> get_index e \<and> get_index e < int (length documents)"
  shows "\<exists>rr. rerank_loop documents (get_results resp) [] = Inr rr
           \<and> search_kb_with_optional_rerank svc q kb_id (Some arn) True =
               ([Retrieve q kb_id 5, Rerank q arn 5 documents],
                Inr \<lparr>original_results = fst (retrieval_loop 0 (get_retrievalResults kb) [] []),
                     reranked_results = Some rr\<rparr>)"
proof -
  from assms(2,3) have ne: "get_retrievalResults kb \<noteq> []" by auto
  note s = search_rerank [OF assms(1) assms(4) ne, folded assms(2)]
  from rerank_loop_in_range [OF assms(6), of "[]"] obtain rr where
    "rerank_loop documents (get_results resp) [] = Inr rr" by blast
  then show ?thesis by (simp add: s assms(5))
qed

lemma demo_documents_hits:
  "demo_documents = map extract_text (get_retrievalResults \<lparr>retrievalResults = Some demo_hits\<rparr>)"
  by (simp only: demo_get_hits demo_extract)

lemma demo_rerank:
  "rerank demo_services ''q'' ''arn'' 5 demo_documents = Inr \<lparr>results = Some demo_entries\<rparr>"
  by (simp add: demo_services_def)

lemma demo_get_entries: "get_results \<lparr>results = Some demo_entries\<rparr> = demo_entries"
  by (simp add: get_results_def)

lemma demo_entries_in_range:
  "\<forall>e\<in>set (get_results \<lparr>results = Some demo_entries\<rparr>).
     - int (length demo_documents) \<le> get_index e \<and> get_index e < int (length demo_documents)"
  by (simp add: get_results_def demo_entries_def get_index_def demo_documents_def)

lemma stray_retrieve:
  "retrieve stray_services ''q'' ''kb'' 5 = Inr \<lparr>retrievalResults = Some demo_hits\<rparr>"
  by (simp add: stray_services_def demo_services_def)

lemma stray_rerank:
  "rerank stray_services ''q'' ''arn'' 5 demo_documents = Inr \<lparr>results = Some stray_entries\<rparr>"
  by (simp add: stray_services_def)

lemma stray_loop: "rerank_loop demo_documents stray_entries [] = Inl IndexError"
  by (simp add: demo_documents_def stray_entries_def get_index_def get_relevanceScore_def
        subscript_def Let_def)

lemma stray_search:
  "search_kb_with_optional_rerank stray_services ''q'' ''kb'' (Some ''arn'') True =
     ([Retrieve ''q'' ''kb'' 5, Rerank ''q'' ''arn'' 5 demo_documents], Inl IndexError)"
proof -
  have ne: "get_retrievalResults \<lparr>retrievalResults = Some demo_hits\<rparr> \<noteq> []"
    unfolding demo_get_hits by (simp add: demo_hits_def)
  have a: "''arn'' \<noteq> []" by simp
  have g: "get_results \<lparr>results = Some stray_entries\<rparr> = stray_entries"
    by (simp add: get_results_def)
  show ?thesis
    unfolding search_rerank [OF stray_retrieve a ne] demo_get_hits demo_extract
    by (simp add: stray_rerank g stray_loop)
qed

text \<open>
  C2 as stated, for every rerank response, does not hold of the code: the stray reranker
  answers the two submitted documents with two entries, of indices 0 and 2, and the run
  ends in \<^verbatim>\<open>IndexError\<close> at the second lookup \<^verbatim>\<open>documents[idx]\<close>, so that neither entry is
  mapped to a document of a result.
\<close>

theorem reranked_positions_counterexample:
  "rerank stray_services ''q'' ''arn'' 5 demo_documents = Inr \<lparr>results = Some stray_entries\<rparr>
   \<and> length stray_entries = 2
   \<and> rerank_loop demo_documents stray_entries [] = Inl IndexError
   \<and> search_kb_with_optional_rerank stray_services ''q'' ''kb'' (Some ''arn'') True =
       ([Retrieve ''q'' ''kb'' 5, Rerank ''q'' ''arn'' 5 demo_documents], Inl IndexError)"
  by (simp add: stray_rerank stray_loop stray_search) (simp add: stray_entries_def)

text \<open>
  C2, amended. Let the run reach the rerank call (retrieve succeeded, the documents are not
  empty, reranking is requested with a model) and let every index of the rerank response
  (0 when absent) satisfy -n \<le> index < n for the n submitted documents, so that every
  lookup \<^verbatim>\<open>documents[idx]\<close> succeeds. Then the function returns \<^verbatim>\<open>reranked_results\<close> with one
  entry per entry of the response, in the same order; its \<^verbatim>\<open>original_position\<close> is the
  entry's index plus 1, and the \<^verbatim>\<open>new_position\<close> values are 1, 2, ..., N for the N returned
  entries, whatever the scores are.
\<close>

theorem reranked_positions:
  assumes "retrieve svc q kb_id 5 = Inr kb"
    and "documents = map extract_text (get_retrievalResults kb)"
    and "documents \<noteq> []" and "arn \<noteq> []"
    and "rerank svc q arn 5 documents = Inr resp"
    and "\<forall>e\<in>set (get_results resp).
           - int (length documents) \<le> get_index e \<and> get_index e < int (length documents)"
  shows "\<exists>rr. search_kb_with_optional_rerank svc q kb_id (Some arn) True =
               ([Retrieve q kb_id 5, Rerank q arn 5 documents],
                Inr \<lparr>original_results = fst (retrieval_loop 0 (get_retrievalResults kb) [] []),
                     reranked_results = Some rr\<rparr>)
           \<and> length rr = length (get_results resp)
           \<and> map original_position rr = map (\<lambda>e. get_index e + 1) (get_results resp)
           \<and> map new_position rr = [1 .. int (length (get_results resp))]"
proof -
  from search_reranks [OF assms] obtain rr where
    l: "rerank_loop documents (get_results resp) [] = Inr rr" and
    s: "search_kb_with_optional_rerank svc q kb_id (Some arn) True =
               ([Retrieve q kb_id 5, Rerank q arn 5 documents],
                Inr \<lparr>original_results = fst (retrieval_loop 0 (get_retrievalResults kb) [] []),
                     reranked_results = Some rr\<rparr>)"
    by blast
  from rerank_loop_Inr [OF l] have
    "length rr = length (get_results resp)"
    "map original_position rr = map (\<lambda>e. get_index e + 1) (get_results resp)"
    "map new_position rr = [1 .. int (length (get_results resp))]"
    by auto
  with s show ?thesis by blast
qed

text \<open>
  The run of the sample services with reranking: the reranker returns index 1, then an
  entry without index, and the run returns the positions 2, 1 under the new positions 1, 2.
\<close>

theorem reranked_positions_witness:
  "\<exists>rr. search_kb_with_optional_rerank demo_services ''q'' ''kb'' (Some ''arn'') True =
          ([Retrieve ''q'' ''kb'' 5, Rerank ''q'' ''arn'' 5 demo_documents],
           Inr \<lparr>original_results = demo_original, reranked_results = Some rr\<rparr>)
        \<and> length rr = 2
        \<and> map original_position rr = [2, 1]
        \<and> map new_position rr = [1, 2]"
proof -
  have ne: "demo_documents \<noteq> []" by (simp add: demo_documents_def)
  have a: "''arn'' \<noteq> []" by simp
  have u: "[1 .. int 2] = [1, 2]"
    by (simp add: upto.simps)
  have o: "map (\<lambda>e. get_index e + 1) demo_entries = [2, 1]"
    by (simp add: demo_entries_def get_index_def)
  have n: "length demo_entries = 2" by (simp add: demo_entries_def)
  from reranked_positions
    [OF demo_retrieve demo_documents_hits ne a demo_rerank demo_entries_in_range]
  show ?thesis
    unfolding demo_get_entries demo_get_hits demo_retrieval_loop u o n .
qed



text \<open>
  C4 as stated, for every returned entry, does not hold of the code: the second entry of
  the stray reranker has the index 2, no document corresponds to it among the two
  submitted, the lookup raises \<^verbatim>\<open>IndexError\<close> and the run stores no text for any entry.
\<close>

theorem reranked_text_ellipsis_counterexample:
  "rerank stray_services ''q'' ''arn'' 5 demo_documents = Inr \<lparr>results = Some stray_entries\<rparr>
   \<and> length demo_documents = 2
   \<and> get_index (stray_entries ! 1) = 2
   \<and> subscript demo_documents (get_index (stray_entries ! 1)) = Inl IndexError
   \<and> search_kb_with_optional_rerank stray_services ''q'' ''kb'' (Some ''arn'') True =
       ([Retrieve ''q'' ''kb'' 5, Rerank ''q'' ''arn'' 5 demo_documents], Inl IndexError)"
  by (simp add: stray_rerank stray_search)
     (simp add: stray_entries_def demo_documents_def get_index_def subscript_def)

text \<open>
  C4, amended. Let the run reach the rerank call and let every index of the rerank response
  (0 when absent) satisfy -n \<le> index < n for the n submitted documents, so that every
  lookup \<^verbatim>\<open>documents[idx]\<close> succeeds. Then the function returns \<^verbatim>\<open>reranked_results\<close> with one
  entry per entry of the response, and the stored text of the k-th is the first 300
  characters of the submitted document that the k-th index selects, followed by \<^verbatim>\<open>"..."\<close> in
  every case: a document of at most 300 characters is stored whole with the marker
  appended.
\<close>

theorem reranked_text_ellipsis:
  assumes "retrieve svc q kb_id 5 = Inr kb"
    and "documents = map extract_text (get_retrievalResults kb)"
    and "documents \<noteq> []" and "arn \<noteq> []"
    and "rerank svc q arn 5 documents = Inr resp"
    and "\<forall>e\<in>set (get_results resp).
           - int (length documents) \<le> get_index e \<and> get_index e < int (length documents)"
  shows "\<exists>rr. search_kb_with_optional_rerank svc q kb_id (Some arn) True =
               ([Retrieve q kb_id 5, Rerank q arn 5 documents],
                Inr \<lparr>original_results = fst (retrieval_loop 0 (get_retrievalResults kb) [] []),
                     reranked_results = Some rr\<rparr>)
           \<and> length rr = length (get_results resp)
           \<and> (\<forall>k < length (get_results resp). \<exists>doc.
                  subscript documents (get_index (get_results resp ! k)) = Inr doc
                  \<and> reranked_text (rr ! k) = take 300 doc @ ''...''
                  \<and> (length doc \<le> 300 \<longrightarrow> reranked_text (rr ! k) = doc @ ''...''))"
proof -
  from search_reranks [OF assms] obtain rr where
    l: "rerank_loop documents (get_results resp) [] = Inr rr" and
    s: "search_kb_with_optional_rerank svc q kb_id (Some arn) True =
               ([Retrieve q kb_id 5, Rerank q arn 5 documents],
                Inr \<lparr>original_results = fst (retrieval_loop 0 (get_retrievalResults kb) [] []),
                     reranked_results = Some rr\<rparr>)"
    by blast
  from rerank_loop_Inr [OF l] have
    len: "length rr = length (get_results resp)" and
    rel: "list_all2 (\<lambda>e d. original_position d = get_index e + 1
                          \<and> (\<exists>doc. subscript documents (get_index e) = Inr doc
                                \<and> reranked_text d = take 300 doc @ ''...'')) (get_results resp) rr"
    by auto
  have "\<exists>doc. subscript documents (get_index (get_results resp ! k)) = Inr doc
          \<and> reranked_text (rr ! k) = take 300 doc @ ''...''
          \<and> (length doc \<le> 300 \<longrightarrow> reranked_text (rr ! k) = doc @ ''...'')"
    if "k < length (get_results resp)" for k
    using list_all2_nthD [OF rel that] by auto
  with s len show ?thesis by blast
qed

text \<open>
  The run of the sample services with reranking: the document of 301 characters is cut to
  300, the document of 13 characters is stored whole, and both get the marker.
\<close>

theorem reranked_text_ellipsis_witness:
  "\<exists>rr. search_kb_with_optional_rerank demo_services ''q'' ''kb'' (Some ''arn'') True =
          ([Retrieve ''q'' ''kb'' 5, Rerank ''q'' ''arn'' 5 demo_documents],
           Inr \<lparr>original_results = demo_original, reranked_results = Some rr\<rparr>)
        \<and> length rr = 2
        \<and> reranked_text (rr ! 0) = replicate 300 (CHR ''x'') @ ''...''
        \<and> reranked_text (rr ! 1) = ''alpha 42 beta...''"
proof -
  have ne: "demo_documents \<noteq> []" by (simp add: demo_documents_def)
  have a: "''arn'' \<noteq> []" by simp
  have n: "length demo_entries = 2" by (simp add: demo_entries_def)
  have s0: "subscript demo_documents (get_index (demo_entries ! 0)) = Inr (replicate 301 (CHR ''x''))"
    by (simp add: demo_documents_def demo_entries_def get_index_def subscript_def)
  have s1: "subscript demo_documents (get_index (demo_entries ! 1)) = Inr ''alpha 42 beta''"
    by (simp add: demo_documents_def demo_entries_def get_index_def subscript_def)
  from reranked_text_ellipsis
    [OF demo_retrieve demo_documents_hits ne a demo_rerank demo_entries_in_range]
  obtain rr where
    r: "search_kb_with_optional_rerank demo_services ''q'' ''kb'' (Some ''arn'') True =
          ([Retrieve ''q'' ''kb'' 5, Rerank ''q'' ''arn'' 5 demo_documents],
           Inr \<lparr>original_results = demo_original, reranked_results = Some rr\<rparr>)"
      "length rr = length demo_entries" and
    t: "\<forall>k < length demo_entries. \<exists>doc.
          subscript demo_documents (get_index (demo_entries ! k)) = Inr doc
          \<and> reranked_text (rr ! k) = take 300 doc @ ''...''
          \<and> (length doc \<le> 300 \<longrightarrow> reranked_text (rr ! k) = doc @ ''...'')"
    unfolding demo_get_entries demo_get_hits demo_retrieval_loop by blast
  have k: "0 < length demo_entries" "1 < length demo_entries" by (simp_all add: n)
  from t [rule_format, OF k(1)] have t0: "reranked_text (rr ! 0) = replicate 300 (CHR ''x'') @ ''...''"
    unfolding s0 by auto
  from t [rule_format, OF k(2)] have t1: "reranked_text (rr ! 1) = ''alpha 42 beta...''"
    unfolding s1 by auto
  from r t0 t1 show ?thesis unfolding n by blast
qed

text \<open>
  C5. With \<^verbatim>\<open>use_reranking=True\<close> and an empty list of extracted documents, the only call
  made is the retrieve call (no rerank call), and the function returns a result with
  \<^verbatim>\<open>original_results\<close> (empty) and without \<^verbatim>\<open>reranked_results\<close>, whatever \<^verbatim>\<open>model_arn\<close> is.
\<close>

theorem empty_documents_skip_rerank:
  assumes "retrieve svc q kb_id 5 = Inr kb"
    and "snd (retrieval_loop 0 (get_retrievalResults kb) [] []) = []"
  shows "search_kb_with_optional_rerank svc q kb_id model_arn True =
           ([Retrieve q kb_id 5], Inr \<lparr>original_results = [], reranked_results = None\<rparr>)"
proof -
  from assms(2) have e: "get_retrievalResults kb = []"
    by (simp add: retrieval_loop_documents)
  from search_no_rerank [OF assms(1), of True model_arn] e show ?thesis by simp
qed

text \<open>The knowledge base without hits, asked with a reranking model.\<close>

theorem empty_documents_skip_rerank_witness:
  "snd (retrieval_loop 0 (get_retrievalResults \<lparr>retrievalResults = None\<rparr>) [] []) = []
   \<and> search_kb_with_optional_rerank empty_services ''q'' ''kb'' (Some ''arn'') True =
       ([Retrieve ''q'' ''kb'' 5], Inr \<lparr>original_results = [], reranked_results = None\<rparr>)"
proof -
  have r: "retrieve empty_services ''q'' ''kb'' 5 = Inr \<lparr>retrievalResults = None\<rparr>"
    by (simp add: empty_services_def)
  have d: "snd (retrieval_loop 0 (get_retrievalResults \<lparr>retrievalResults = None\<rparr>) [] []) = []"
    by (simp add: get_retrievalResults_def)
  from empty_documents_skip_rerank [OF r d, of "Some ''arn''"] d show ?thesis by simp
qed

text \<open>
  C9. When \<^verbatim>\<open>model_arn\<close> is \<^verbatim>\<open>None\<close> or the empty string, the only call made is the retrieve
  call, no returned result has a \<^verbatim>\<open>reranked_results\<close> key, and when the retrieve call
  succeeds the function returns \<^verbatim>\<open>original_results\<close> alone; this holds for either value of
  \<^verbatim>\<open>use_reranking\<close> and for any number of documents.
\<close>

theorem falsy_model_arn_skips_rerank:
  assumes "model_arn = None \<or> model_arn = Some ''''"
  shows "fst (search_kb_with_optional_rerank svc q kb_id model_arn use) = [Retrieve q kb_id 5]
     \<and> (\<forall>res. snd (search_kb_with_optional_rerank svc q kb_id model_arn use) = Inr res \<longrightarrow>
            reranked_results res = None)
     \<and> (\<forall>kb. retrieve svc q kb_id 5 = Inr kb \<longrightarrow>
            snd (search_kb_with_optional_rerank svc q kb_id model_arn use) =
              Inr \<lparr>original_results = fst (retrieval_loop 0 (get_retrievalResults kb) [] []),
                   reranked_results = None\<rparr>)"
proof (cases "retrieve svc q kb_id 5")
  case (Inl e)
  then show ?thesis by (simp add: search_retrieve_failed)
next
  case (Inr kb)
  from assms have "\<not> use \<or> model_arn = None \<or> model_arn = Some [] \<or> get_retrievalResults kb = []"
    by auto
  from search_no_rerank [OF Inr this] Inr show ?thesis by simp
qed

text \<open>The sample services, two documents, reranking requested, no model.\<close>

theorem falsy_model_arn_skips_rerank_witness:
  "search_kb_with_optional_rerank demo_services ''q'' ''kb'' None True =
     ([Retrieve ''q'' ''kb'' 5],
      Inr \<lparr>original_results = demo_original, reranked_results = None\<rparr>)"
proof -
  have "None = None \<or> None = Some ''''" by simp
  from falsy_model_arn_skips_rerank [OF this, of demo_services "''q''" "''kb''" True]
    demo_retrieve
  show ?thesis
    by (simp add: prod_eq_iff demo_get_hits demo_retrieval_loop)
qed

text \<open>
  C10. Let the retrieve and rerank calls succeed on a non-empty document list. If every
  index of the rerank response (0 when absent) is a valid 0-based index into the submitted
  documents, every lookup \<^verbatim>\<open>documents[idx]\<close> succeeds and the function returns
  \<^verbatim>\<open>reranked_results\<close>. If some index is greater than or equal to the number of submitted
  documents, the mapping raises \<^verbatim>\<open>IndexError\<close> and so does the function.
\<close>

theorem rerank_lookup_defined:
  assumes "retrieve svc q kb_id 5 = Inr kb"
    and "documents = map extract_text (get_retrievalResults kb)"
    and "documents \<noteq> []" and "arn \<noteq> []"
    and "rerank svc q arn 5 documents = Inr resp"
  shows "((\<forall>e\<in>set (get_results resp). 0 \<le> get_index e \<and> get_index e < int (length documents)) \<longrightarrow>
            (\<exists>rr. rerank_loop documents (get_results resp) [] = Inr rr
               \<and> search_kb_with_optional_rerank svc q kb_id (Some arn) True =
                   ([Retrieve q kb_id 5, Rerank q arn 5 documents],
                    Inr \<lparr>original_results = fst (retrieval_loop 0 (get_retrievalResults kb) [] []),
                         reranked_results = Some rr\<rparr>)))
       \<and> ((\<exists>e\<in>set (get_results resp). int (length documents) \<le> get_index e) \<longrightarrow>
            rerank_loop documents (get_results resp) [] = Inl IndexError
            \<and> search_kb_with_optional_rerank svc q kb_id (Some arn) True =
                ([Retrieve q kb_id 5, Rerank q arn 5 documents], Inl IndexError))"
proof -
  from assms(2,3) have ne: "get_retrievalResults kb \<noteq> []" by auto
  note s = search_rerank [OF assms(1) assms(4) ne, folded assms(2)]
  show ?thesis
  proof (intro conjI impI)
    assume "\<forall>e\<in>set (get_results resp). 0 \<le> get_index e \<and> get_index e < int (length documents)"
    from rerank_loop_valid [OF this, of "[]"] obtain rr where
      "rerank_loop documents (get_results resp) [] = Inr rr" by blast
    then show "\<exists>rr. rerank_loop documents (get_results resp) [] = Inr rr
               \<and> search_kb_with_optional_rerank svc q kb_id (Some arn) True =
                   ([Retrieve q kb_id 5, Rerank q arn 5 documents],
                    Inr \<lparr>original_results = fst (retrieval_loop 0 (get_retrievalResults kb) [] []),
                         reranked_results = Some rr\<rparr>)"
      by (simp add: s assms(5))
  next
    assume "\<exists>e\<in>set (get_results resp). int (length documents) \<le> get_index e"
    from rerank_loop_out_of_range [OF this, of "[]"]
    show "rerank_loop documents (get_results resp) [] = Inl IndexError" .
  next
    assume "\<exists>e\<in>set (get_results resp). int (length documents) \<le> get_index e"
    from rerank_loop_out_of_range [OF this, of "[]"]
    show "search_kb_with_optional_rerank svc q kb_id (Some arn) True =
                ([Retrieve q kb_id 5, Rerank q arn 5 documents], Inl IndexError)"
      by (simp add: s assms(5))
  qed
qed

text \<open>
  The sample reranker returns the indices 1 and 0 (absent): the run returns. The stray
  reranker returns the index 2 for two documents: the run raises.
\<close>

theorem rerank_lookup_defined_witness:
  "search_kb_with_optional_rerank demo_services ''q'' ''kb'' (Some ''arn'') True =
     ([Retrieve ''q'' ''kb'' 5, Rerank ''q'' ''arn'' 5 demo_documents],
      Inr \<lparr>original_results = demo_original, reranked_results = Some demo_reranked\<rparr>)
   \<and> search_kb_with_optional_rerank stray_services ''q'' ''kb'' (Some ''arn'') True =
     ([Retrieve ''q'' ''kb'' 5, Rerank ''q'' ''arn'' 5 demo_documents], Inl IndexError)"
proof -
  have d: "demo_documents = map extract_text (get_retrievalResults \<lparr>retrievalResults = Some demo_hits\<rparr>)"
    by (simp only: demo_get_hits demo_extract)
  have ne: "demo_documents \<noteq> []" by (simp add: demo_documents_def)
  have a: "''arn'' \<noteq> []" by simp
  have r1: "rerank demo_services ''q'' ''arn'' 5 demo_documents = Inr \<lparr>results = Some demo_entries\<rparr>"
    by (simp add: demo_services_def)
  have r2: "rerank stray_services ''q'' ''arn'' 5 demo_documents = Inr \<lparr>results = Some stray_entries\<rparr>"
    by (simp add: stray_services_def)
  have t2: "retrieve stray_services ''q'' ''kb'' 5 = Inr \<lparr>retrievalResults = Some demo_hits\<rparr>"
    by (simp add: stray_services_def demo_services_def)
  have v: "\<forall>e\<in>set (get_results \<lparr>results = Some demo_entries\<rparr>).
             0 \<le> get_index e \<and> get_index e < int (length demo_documents)"
    by (simp add: get_results_def demo_entries_def get_index_def demo_documents_def)
  have w: "\<exists>e\<in>set (get_results \<lparr>results = Some stray_entries\<rparr>).
             int (length demo_documents) \<le> get_index e"
    by (simp add: get_results_def stray_entries_def get_index_def demo_documents_def)
  from rerank_lookup_defined [OF demo_retrieve d ne a r1, THEN conjunct1, THEN mp, OF v]
  have 1: "search_kb_with_optional_rerank demo_services ''q'' ''kb'' (Some ''arn'') True =
     ([Retrieve ''q'' ''kb'' 5, Rerank ''q'' ''arn'' 5 demo_documents],
      Inr \<lparr>original_results = demo_original, reranked_results = Some demo_reranked\<rparr>)"
    by (simp add: demo_search_rerank)
  from rerank_lookup_defined [OF t2 d ne a r2, THEN conjunct2, THEN mp, OF w]
  have 2: "search_kb_with_optional_rerank stray_services ''q'' ''kb'' (Some ''arn'') True =
     ([Retrieve ''q'' ''kb'' 5, Rerank ''q'' ''arn'' 5 demo_documents], Inl IndexError)"
    by simp
  from 1 2 show ?thesis by simp
qed

lemma wide_search:
  "search_kb_with_optional_rerank wide_services ''q'' ''kb'' (Some ''arn'') True =
     ([Retrieve ''q'' ''kb'' 5, Rerank ''q'' ''arn'' 5 wide_documents],
      Inr \<lparr>original_results = wide_original, reranked_results = Some wide_reranked\<rparr>)"
proof -
  have t: "retrieve wide_services ''q'' ''kb'' 5 = Inr \<lparr>retrievalResults = Some wide_hits\<rparr>"
    by (simp add: wide_services_def demo_services_def)
  have h: "get_retrievalResults \<lparr>retrievalResults = Some wide_hits\<rparr> = wide_hits"
    by (simp add: get_retrievalResults_def)
  have ne: "get_retrievalResults \<lparr>retrievalResults = Some wide_hits\<rparr> \<noteq> []"
    unfolding h by (simp add: wide_hits_def)
  have a: "''arn'' \<noteq> []" by simp
  have d: "map extract_text wide_hits = wide_documents"
    by (simp add: wide_hits_def wide_documents_def bare_hit_def extract_text_def)
  have o: "fst (retrieval_loop 0 wide_hits [] []) = wide_original"
    by (simp add: wide_hits_def wide_original_def bare_hit_def extract_text_def
          truncate_text_def get_scoreValue_def Let_def)
  have r: "rerank wide_services ''q'' ''arn'' 5 wide_documents = Inr \<lparr>results = Some wide_entries\<rparr>"
    by (simp add: wide_services_def demo_services_def)
  have g: "get_results \<lparr>results = Some wide_entries\<rparr> = wide_entries"
    by (simp add: get_results_def)
  have l: "rerank_loop wide_documents wide_entries [] = Inr wide_reranked"
    by (simp add: wide_documents_def wide_entries_def wide_reranked_def get_index_def
          get_relevanceScore_def subscript_def Let_def)
  show ?thesis
    unfolding search_rerank [OF t a ne] h d o by (simp add: r g l)
qed

text \<open>
  C6 as stated does not hold of the code, which keeps every hit and every rerank entry that
  the services return: at the wide services \<^verbatim>\<open>original_results\<close> has 6 entries for the 5
  requested, \<^verbatim>\<open>reranked_results\<close> has 7, and the first \<^verbatim>\<open>original_position\<close> is 0 (from
  the index -1, which \<^verbatim>\<open>documents[idx]\<close> accepts).
\<close>

theorem result_lengths_counterexample:
  "search_kb_with_optional_rerank wide_services ''q'' ''kb'' (Some ''arn'') True =
     ([Retrieve ''q'' ''kb'' 5, Rerank ''q'' ''arn'' 5 wide_documents],
      Inr \<lparr>original_results = wide_original, reranked_results = Some wide_reranked\<rparr>)
   \<and> \<not> length wide_original \<le> 5
   \<and> \<not> length wide_reranked \<le> length wide_original
   \<and> \<not> (1 \<le> original_position (wide_reranked ! 0)
         \<and> original_position (wide_reranked ! 0) \<le> int (length wide_documents))"
  by (simp add: wide_search) (simp add: wide_original_def wide_reranked_def)

text \<open>
  C6, amended. \<^verbatim>\<open>original_results\<close> has exactly one entry per hit of the retrieve response,
  hence at most 5 when the service returns at most the 5 results requested. When
  \<^verbatim>\<open>reranked_results\<close> is present it has exactly one entry per entry of the rerank response,
  hence at most as many as \<^verbatim>\<open>original_results\<close> when the service returns no more entries
  than documents submitted. Every \<^verbatim>\<open>original_position\<close> p satisfies 1 - n \<le> p \<le> n for the
  n submitted documents, and 1 \<le> p \<le> n when no returned index is negative.
\<close>

theorem result_lengths:
  assumes "search_kb_with_optional_rerank svc q kb_id model_arn use = (tr, Inr res)"
  shows "\<exists>kb. retrieve svc q kb_id 5 = Inr kb
     \<and> length (original_results res) = length (get_retrievalResults kb)
     \<and> (length (get_retrievalResults kb) \<le> 5 \<longrightarrow> length (original_results res) \<le> 5)
     \<and> (\<forall>rr. reranked_results res = Some rr \<longrightarrow>
          (\<exists>arn resp. model_arn = Some arn
             \<and> rerank svc q arn 5 (map extract_text (get_retrievalResults kb)) = Inr resp
             \<and> length rr = length (get_results resp)
             \<and> (length (get_results resp) \<le> length (get_retrievalResults kb) \<longrightarrow>
                  length rr \<le> length (original_results res))
             \<and> (\<forall>d\<in>set rr. 1 - int (length (get_retrievalResults kb)) \<le> original_position d
                           \<and> original_position d \<le> int (length (get_retrievalResults kb)))
             \<and> ((\<forall>e\<in>set (get_results resp). 0 \<le> get_index e) \<longrightarrow>
                  (\<forall>d\<in>set rr. 1 \<le> original_position d
                             \<and> original_position d \<le> int (length (get_retrievalResults kb))))))"
proof -
  from search_Inr [OF assms] obtain kb where
    kb: "retrieve svc q kb_id 5 = Inr kb"
      "original_results res = fst (retrieval_loop 0 (get_retrievalResults kb) [] [])"
      "\<forall>rr. reranked_results res = Some rr \<longrightarrow>
                 (\<exists>arn resp. model_arn = Some arn \<and> use
                    \<and> rerank svc q arn 5 (map extract_text (get_retrievalResults kb)) = Inr resp
                    \<and> rerank_loop (map extract_text (get_retrievalResults kb)) (get_results resp) [] = Inr rr)"
    by auto
  let ?hits = "get_retrievalResults kb"
  let ?docs = "map extract_text ?hits"
  have len: "length (original_results res) = length ?hits"
    by (simp add: kb(2) retrieval_loop_length)
  have rr: "\<exists>arn resp. model_arn = Some arn
             \<and> rerank svc q arn 5 ?docs = Inr resp
             \<and> length rr = length (get_results resp)
             \<and> (length (get_results resp) \<le> length ?hits \<longrightarrow>
                  length rr \<le> length (original_results res))
             \<and> (\<forall>d\<in>set rr. 1 - int (length ?hits) \<le> original_position d
                           \<and> original_position d \<le> int (length ?hits))
             \<and> ((\<forall>e\<in>set (get_results resp). 0 \<le> get_index e) \<longrightarrow>
                  (\<forall>d\<in>set rr. 1 \<le> original_position d
                             \<and> original_position d \<le> int (length ?hits)))"
    if "reranked_results res = Some rr" for rr
  proof -
    from kb(3) that obtain arn resp where
      k: "model_arn = Some arn" "rerank svc q arn 5 ?docs = Inr resp"
         "rerank_loop ?docs (get_results resp) [] = Inr rr"
      by blast
    from rerank_loop_Inr [OF k(3)] have
      l: "length rr = length (get_results resp)" and
      rel: "list_all2 (\<lambda>e d. original_position d = get_index e + 1
                          \<and> (\<exists>doc. subscript ?docs (get_index e) = Inr doc
                                \<and> reranked_text d = take 300 doc @ ''...'')) (get_results resp) rr"
      by auto
    have each: "\<exists>e\<in>set (get_results resp). original_position d = get_index e + 1
                  \<and> - int (length ?hits) \<le> get_index e \<and> get_index e < int (length ?hits)"
      if "d \<in> set rr" for d
    proof -
      from that obtain k where k: "k < length rr" "d = rr ! k"
        by (auto simp: in_set_conv_nth)
      from list_all2_nthD2 [OF rel k(1)] obtain doc where
        "original_position d = get_index (get_results resp ! k) + 1"
        "subscript ?docs (get_index (get_results resp ! k)) = Inr doc"
        using k(2) by auto
      with subscript_Inr_bounds [of ?docs _ doc] k(1) l show ?thesis
        by (intro bexI [of _ "get_results resp ! k"]) auto
    qed
    have b1: "\<forall>d\<in>set rr. 1 - int (length ?hits) \<le> original_position d
                           \<and> original_position d \<le> int (length ?hits)"
      using each by fastforce
    have b2: "(\<forall>e\<in>set (get_results resp). 0 \<le> get_index e) \<longrightarrow>
                  (\<forall>d\<in>set rr. 1 \<le> original_position d
                             \<and> original_position d \<le> int (length ?hits))"
      using each by fastforce
    from k(1,2) l len b1 b2 show ?thesis by auto
  qed
  from kb(1) len rr show ?thesis by (intro exI [of _ kb]) simp
qed

text \<open>The sample run with reranking: two hits, two entries, positions 2 and 1.\<close>

theorem result_lengths_witness:
  "length demo_original = length demo_hits \<and> length demo_original \<le> 5
   \<and> length demo_reranked \<le> length demo_original
   \<and> 1 \<le> original_position (demo_reranked ! 0)
   \<and> original_position (demo_reranked ! 0) \<le> int (length demo_hits)
   \<and> 1 \<le> original_position (demo_reranked ! 1)
   \<and> original_position (demo_reranked ! 1) \<le> int (length demo_hits)"
proof -
  have nn: "\<forall>e\<in>set demo_entries. 0 \<le> get_index e"
    by (simp add: demo_entries_def get_index_def)
  have m: "demo_reranked ! 0 \<in> set demo_reranked" "demo_reranked ! 1 \<in> set demo_reranked"
    by (simp_all add: demo_reranked_def)
  from result_lengths [OF demo_search_rerank] demo_retrieve nn
  have "length demo_original = length demo_hits \<and> length demo_hits \<le> 5
     \<and> length demo_reranked \<le> length demo_original
     \<and> (\<forall>d\<in>set demo_reranked. 1 \<le> original_position d
                             \<and> original_position d \<le> int (length demo_hits))"
    by (auto simp: demo_get_hits demo_extract demo_services_def get_results_def)
       (simp_all add: demo_hits_def demo_entries_def)
  with m show ?thesis by auto
qed

lemma build_context_three:
  "build_context (d1 # d2 # d3 # rest) =
     ''Document 1: '' @ take 300 d1 @ ''...'' @ [CHR 0x0A, CHR 0x0A] @
     ''Document 2: '' @ take 300 d2 @ ''...'' @ [CHR 0x0A, CHR 0x0A] @
     ''Document 3: '' @ take 300 d3 @ ''...''"
  by (simp add: build_context_def nl_def str_int_1 str_int_2 str_int_3)

lemma build_context_two:
  "build_context [d1, d2] =
     ''Document 1: '' @ take 300 d1 @ ''...'' @ [CHR 0x0A, CHR 0x0A] @
     ''Document 2: '' @ take 300 d2 @ ''...''"
  by (simp add: build_context_def nl_def str_int_1 str_int_2)

lemma build_context_one: "build_context [d1] = ''Document 1: '' @ take 300 d1 @ ''...''"
  by (simp add: build_context_def nl_def str_int_1)

lemma build_context_none: "build_context [] = ''''"
  by (simp add: build_context_def)

lemma build_prompt_text:
  "build_prompt query source_type context =
     ''Query: '' @ query @ [CHR 0x0A, CHR 0x0A] @ ''Context from '' @ source_type @ '':''
       @ [CHR 0x0A] @ context @ [CHR 0x0A, CHR 0x0A] @ ''Answer:''"
  by (simp add: build_prompt_def nl_def)

text \<open>
  C7. The context is built from the first 3 selected documents only (fewer when fewer are
  selected): the i-th is rendered as \<^verbatim>\<open>"Document i: "\<close>, its first 300 characters and
  \<^verbatim>\<open>"..."\<close>, and the renderings are joined by a blank line (two newlines). The prompt that a
  run sends to the model is \<^verbatim>\<open>"Query: <query>\n\nContext from <source_type>:\n<context>\n\nAnswer:"\<close>
  for the selected documents and their label.
\<close>

theorem context_and_prompt:
  "build_context (d1 # d2 # d3 # rest) =
     ''Document 1: '' @ take 300 d1 @ ''...'' @ [CHR 0x0A, CHR 0x0A] @
     ''Document 2: '' @ take 300 d2 @ ''...'' @ [CHR 0x0A, CHR 0x0A] @
     ''Document 3: '' @ take 300 d3 @ ''...''
   \<and> build_context [d1, d2] =
     ''Document 1: '' @ take 300 d1 @ ''...'' @ [CHR 0x0A, CHR 0x0A] @
     ''Document 2: '' @ take 300 d2 @ ''...''
   \<and> build_context [d1] = ''Document 1: '' @ take 300 d1 @ ''...''
   \<and> build_context [] = ''''
   \<and> (search_kb_with_optional_rerank svc q kb_id arn use = (tr, Inr res)
        \<and> select_documents use res = (docs, source_type) \<longrightarrow>
      fst (retrieve_and_generate svc q kb_id arn use) =
        tr @ [InvokeModel model_id 500
                (''Query: '' @ q @ [CHR 0x0A, CHR 0x0A] @ ''Context from '' @ source_type
                   @ '':'' @ [CHR 0x0A] @ build_context docs @ [CHR 0x0A, CHR 0x0A]
                   @ ''Answer:'')])"
  using rag_trace [of svc q kb_id arn use tr res docs source_type]
  by (simp only: build_context_three build_context_two build_context_one build_context_none
        build_prompt_text) simp

text \<open>The sample run without reranking, and four documents of which the fourth is left out.\<close>

theorem context_and_prompt_witness:
  "fst (retrieve_and_generate demo_services ''q'' ''kb'' (Some ''arn'') False) =
     [Retrieve ''q'' ''kb'' 5,
      InvokeModel model_id 500
        (''Query: q'' @ [CHR 0x0A, CHR 0x0A] @ ''Context from vector search:'' @ [CHR 0x0A]
           @ ''Document 1: alpha 42 beta...'' @ [CHR 0x0A, CHR 0x0A]
           @ ''Document 2: '' @ replicate 300 (CHR ''x'') @ ''...'' @ [CHR 0x0A, CHR 0x0A]
           @ ''Answer:'')]
   \<and> build_context [''a'', ''b'', ''c'', ''d''] =
       ''Document 1: a...'' @ [CHR 0x0A, CHR 0x0A] @ ''Document 2: b...''
         @ [CHR 0x0A, CHR 0x0A] @ ''Document 3: c...''"
proof -
  have s: "select_documents False \<lparr>original_results = demo_original, reranked_results = None\<rparr>
             = ([''alpha 42 beta'', replicate 300 (CHR ''x'') @ ''...''], ''vector search'')"
    by (simp add: select_documents_def demo_original_def)
  note t = context_and_prompt
    [of "''alpha 42 beta''" "replicate 300 (CHR ''x'') @ ''...''" _ _
        demo_services "''q''" "''kb''" "Some ''arn''" False "[Retrieve ''q'' ''kb'' 5]"
        "\<lparr>original_results = demo_original, reranked_results = None\<rparr>"
        "[''alpha 42 beta'', replicate 300 (CHR ''x'') @ ''...'']" "''vector search''"]
  note u = context_and_prompt [of "''a''" "''b''" "''c''" "[''d'']", THEN conjunct1]
  from t u demo_search_plain s show ?thesis by simp
qed

text \<open>
  C8. For a hit whose content has a \<^verbatim>\<open>text\<close> sequence of fragments, the extracted text is the
  fragments' contributions joined with single spaces; a mapping contributes its \<^verbatim>\<open>span\<close>
  value (the empty string when it has none), any other fragment its string form.
\<close>

theorem extract_text_joined:
  assumes "content result = Some c" and "content_text c = Some items"
  shows "extract_text result = joined_with '' '' (map item_text items)
     \<and> (\<forall>d s. map_of d ''span'' = Some s \<longrightarrow> item_text (Dict d) = s)
     \<and> (\<forall>d. map_of d ''span'' = None \<longrightarrow> item_text (Dict d) = '''')
     \<and> (\<forall>a. item_text (Plain a) = str a)"
  using assms by (simp add: extract_text_def join_joined_with)

text \<open>The first sample hit: a span, a number and a string.\<close>

theorem extract_text_joined_witness:
  "extract_text
     \<lparr>content = Some \<lparr>content_text =
         Some [Dict [(''span'', ''alpha'')], Plain (PyInt 42), Plain (PyStr ''beta'')]\<rparr>,
      scoreValue = Some 0.9\<rparr> = ''alpha 42 beta''"
proof -
  have j: "joined_with '' ''
             (map item_text [Dict [(''span'', ''alpha'')], Plain (PyInt 42), Plain (PyStr ''beta'')])
           = ''alpha 42 beta''"
    by (simp add: joined_with_def str_int_def str_nat.simps digit_def)
  from extract_text_joined
    [of "\<lparr>content = Some \<lparr>content_text =
            Some [Dict [(''span'', ''alpha'')], Plain (PyInt 42), Plain (PyStr ''beta'')]\<rparr>,
          scoreValue = Some 0.9\<rparr>"
        "\<lparr>content_text =
            Some [Dict [(''span'', ''alpha'')], Plain (PyInt 42), Plain (PyStr ''beta'')]\<rparr>"
        "[Dict [(''span'', ''alpha'')], Plain (PyInt 42), Plain (PyStr ''beta'')]"]
  show ?thesis unfolding j by simp
qed

end
